theory Spec2Isabelle
  imports Main "HOL-Library.Sublist"
begin

section \<open>The main menu of the inventory application\<close>

text \<open>
  The hook \<open>useMainMenuItems\<close> builds two lists of navigation entries from a hard-coded
  catalog and the current user, and removes some entries for self-service users.
  The two hooks it calls, \<open>useUserData\<close> and \<open>useUserIsSelfService\<close>, are inputs of the
  model: the first gives the user object (or nothing while it is not loaded), the second
  the value tested by the \<open>if\<close>.
\<close>

subsection \<open>JavaScript values\<close>

text \<open>
  The values that reach the hook: a profile field is a string, \<open>null\<close> or \<open>undefined\<close>,
  and the role check gives a boolean or \<open>undefined\<close>.
\<close>

datatype jsval = Undefined | Null | Bool bool | Str string

text \<open>\<open>ToBoolean\<close>, as applied by \<open>if (...)\<close> and by \<open>c ? a : b\<close>.\<close>

fun truthy :: "jsval \<Rightarrow> bool" where
  "truthy Undefined = False"
| "truthy Null = False"
| "truthy (Bool b) = b"
| "truthy (Str s) = (s \<noteq> [])"

text \<open>\<open>ToString\<close>, as applied to a substitution \<open>${...}\<close> of a template literal.\<close>

fun toString :: "jsval \<Rightarrow> string" where
  "toString Undefined = ''undefined''"
| "toString Null = ''null''"
| "toString (Bool b) = (if b then ''true'' else ''false'')"
| "toString (Str s) = s"

datatype error = TypeError

record user =
  email :: jsval
  firstName :: jsval
  lastName :: jsval

text \<open>
  \<open>user?.f\<close> is \<open>undefined\<close> when there is no user; \<open>user.f\<close> throws a \<open>TypeError\<close>
  there.
\<close>

fun optChain :: "user option \<Rightarrow> (user \<Rightarrow> jsval) \<Rightarrow> jsval" where
  "optChain None f = Undefined"
| "optChain (Some u) f = f u"

fun getProp :: "user option \<Rightarrow> (user \<Rightarrow> jsval) \<Rightarrow> error + jsval" where
  "getProp None f = Inl TypeError"
| "getProp (Some u) f = Inr (f u)"

text \<open>\<open>xs.includes(x)\<close> on an array of strings.\<close>

definition includes_arr :: "string list \<Rightarrow> string \<Rightarrow> bool" where
  "includes_arr xs x = (x \<in> set xs)"

subsection \<open>Navigation entries\<close>

datatype icon = Icon string

record item =
  icon :: icon
  to :: string
  title :: string
  target :: "string option"
  isNew :: "bool option"
  end_prop :: "bool option"

record menus =
  menuItemsTop :: "item list"
  menuItemsBottom :: "item list"

text \<open>An entry that gives only \<open>icon\<close>, \<open>to\<close> and \<open>title\<close>.\<close>

definition plain :: "string \<Rightarrow> string \<Rightarrow> string \<Rightarrow> item" where
  "plain i t n =
     \<lparr>icon = Icon i, to = t, title = n, target = None, isNew = None, end_prop = None\<rparr>"

text \<open>The initial value of \<open>menuItemsTop\<close>.\<close>

definition menuItemsTop_init :: "item list" where
  "menuItemsTop_init =
     [plain ''graph'' ''dashboard'' ''Dashboard'',
      plain ''asset'' ''assets'' ''Assets'',
      plain ''kit'' ''kits'' ''Kits'',
      plain ''category'' ''categories'' ''Categories'',
      plain ''tag'' ''tags'' ''Tags'',
      plain ''location'' ''locations'' ''Locations'',
      plain ''calendar'' ''calendar'' ''Calendar'',
      plain ''bookings'' ''bookings'' ''Bookings'']"

text \<open>
  The template literal of the asset-labels entry. Each substitution is evaluated in
  turn; the two conditional ones read \<open>user.firstName\<close> and \<open>user.lastName\<close> without
  \<open>?.\<close> in their true branch.
\<close>

definition nameParam :: "user option \<Rightarrow> (user \<Rightarrow> jsval) \<Rightarrow> string \<Rightarrow> error + string" where
  "nameParam u f key =
     (if truthy (optChain u f)
      then (case getProp u f of Inl e \<Rightarrow> Inl e | Inr v \<Rightarrow> Inr (key @ toString v))
      else Inr [])"

definition orderTagsUrl :: "user option \<Rightarrow> error + string" where
  "orderTagsUrl u =
     (case nameParam u firstName ''&firstName='' of
        Inl e \<Rightarrow> Inl e
      | Inr fn \<Rightarrow>
          (case nameParam u lastName ''&lastName='' of
             Inl e \<Rightarrow> Inl e
           | Inr ln \<Rightarrow>
               Inr (''https://www.shelf.nu/order-tags?email='' @ toString (optChain u email)
                    @ fn @ ln)))"

text \<open>The initial value of \<open>menuItemsBottom\<close>.\<close>

definition menuItemsBottom_init :: "user option \<Rightarrow> error + item list" where
  "menuItemsBottom_init u =
     (case orderTagsUrl u of
        Inl e \<Rightarrow> Inl e
      | Inr url \<Rightarrow>
          Inr [\<lparr>icon = Icon ''asset-label'', to = url, title = ''Asset labels'',
                 target = Some ''_blank'', isNew = Some True, end_prop = None\<rparr>,
               \<lparr>icon = Icon ''scanQR'', to = ''scanner'', title = ''QR scanner'',
                 target = None, isNew = None, end_prop = Some True\<rparr>,
               \<lparr>icon = Icon ''settings'', to = ''settings'', title = ''Workspace settings'',
                 target = None, isNew = None, end_prop = Some True\<rparr>])"

text \<open>The two lists before the role is looked at: the unfiltered catalog.\<close>

definition catalog :: "user option \<Rightarrow> error + menus" where
  "catalog u =
     (case menuItemsBottom_init u of
        Inl e \<Rightarrow> Inl e
      | Inr bottom \<Rightarrow> Inr \<lparr>menuItemsTop = menuItemsTop_init, menuItemsBottom = bottom\<rparr>)"

definition itemsToRemove :: "string list" where
  "itemsToRemove = [''dashboard'', ''categories'', ''tags'', ''locations'', ''settings'']"

text \<open>The \<open>if (useUserIsSelfService()) { ... }\<close> block, on the two lists.\<close>

definition roleFilter :: "jsval \<Rightarrow> menus \<Rightarrow> menus" where
  "roleFilter selfService m =
     (if truthy selfService
      then \<lparr>menuItemsTop =
              filter (\<lambda>item. \<not> includes_arr itemsToRemove (to item)) (menuItemsTop m),
            menuItemsBottom =
              filter (\<lambda>item. \<not> includes_arr itemsToRemove (to item)) (menuItemsBottom m)\<rparr>
      else m)"

definition useMainMenuItems :: "user option \<Rightarrow> jsval \<Rightarrow> error + menus" where
  "useMainMenuItems u selfService =
     (case catalog u of
        Inl e \<Rightarrow> Inl e
      | Inr m \<Rightarrow> Inr (roleFilter selfService m))"

subsection \<open>Order of entries\<close>

text \<open>
  \<open>precedes a b xs\<close>: some occurrence of \<open>a\<close> in \<open>xs\<close> has an occurrence of \<open>b\<close> after it.
\<close>

fun precedes :: "'a \<Rightarrow> 'a \<Rightarrow> 'a list \<Rightarrow> bool" where
  "precedes a b [] = False"
| "precedes a b (x # xs) = ((x = a \<and> b \<in> set xs) \<or> precedes a b xs)"

section \<open>Basic facts\<close>

lemma precedes_split:
  "precedes a b xs \<longleftrightarrow> (\<exists>us vs ws. xs = us @ a # vs @ b # ws)"
proof (induction xs)
  case Nil
  show ?case by simp
next
  case (Cons x xs)
  show ?case
  proof
    assume "precedes a b (x # xs)"
    then consider "x = a" "b \<in> set xs" | "precedes a b xs" by auto
    then show "\<exists>us vs ws. x # xs = us @ a # vs @ b # ws"
    proof cases
      case 1
      from \<open>b \<in> set xs\<close> obtain vs ws where "xs = vs @ b # ws"
        by (auto simp: in_set_conv_decomp)
      with 1 have "x # xs = [] @ a # vs @ b # ws" by simp
      then show ?thesis by blast
    next
      case 2
      with Cons.IH obtain us vs ws where "xs = us @ a # vs @ b # ws" by blast
      then have "x # xs = (x # us) @ a # vs @ b # ws" by simp
      then show ?thesis by blast
    qed
  next
    assume "\<exists>us vs ws. x # xs = us @ a # vs @ b # ws"
    then obtain us vs ws where eq: "x # xs = us @ a # vs @ b # ws" by blast
    show "precedes a b (x # xs)"
    proof (cases us)
      case Nil
      with eq show ?thesis by auto
    next
      case (Cons y ys)
      with eq have "xs = ys @ a # vs @ b # ws" by simp
      with Cons.IH have "precedes a b xs" by blast
      then show ?thesis by simp
    qed
  qed
qed

lemma precedes_filter:
  "precedes a b xs \<Longrightarrow> P a \<Longrightarrow> P b \<Longrightarrow> precedes a b (filter P xs)"
  by (induction xs) auto

text \<open>
  The guarded reads never throw: \<open>user.firstName\<close> is only reached when
  \<open>user?.firstName\<close> was truthy, so there is a user.
\<close>

lemma nameParam_Inr:
  "nameParam u f k = Inr (if truthy (optChain u f) then k @ toString (optChain u f) else [])"
  by (cases u) (simp_all add: nameParam_def)

lemma orderTagsUrl_Inr:
  "orderTagsUrl u =
     Inr (''https://www.shelf.nu/order-tags?email='' @ toString (optChain u email)
          @ (if truthy (optChain u firstName)
             then ''&firstName='' @ toString (optChain u firstName) else [])
          @ (if truthy (optChain u lastName)
             then ''&lastName='' @ toString (optChain u lastName) else []))"
  unfolding orderTagsUrl_def by (simp only: nameParam_Inr sum.case)

lemma orderTagsUrl_https:
  "orderTagsUrl u = Inr url \<Longrightarrow> \<exists>rest. url = ''https://'' @ rest"
  by (auto simp: orderTagsUrl_Inr)

lemma catalog_total: "\<exists>m. catalog u = Inr m"
  by (simp add: catalog_def menuItemsBottom_init_def orderTagsUrl_Inr)

lemma catalog_top: "catalog u = Inr m \<Longrightarrow> menuItemsTop m = menuItemsTop_init"
  by (auto simp: catalog_def split: sum.splits)

lemma catalog_bottom:
  "catalog u = Inr m \<Longrightarrow> \<exists>url. orderTagsUrl u = Inr url \<and> menuItemsBottom m =
     [\<lparr>icon = Icon ''asset-label'', to = url, title = ''Asset labels'',
        target = Some ''_blank'', isNew = Some True, end_prop = None\<rparr>,
      \<lparr>icon = Icon ''scanQR'', to = ''scanner'', title = ''QR scanner'',
        target = None, isNew = None, end_prop = Some True\<rparr>,
      \<lparr>icon = Icon ''settings'', to = ''settings'', title = ''Workspace settings'',
        target = None, isNew = None, end_prop = Some True\<rparr>]"
  by (auto simp: catalog_def menuItemsBottom_init_def split: sum.splits)

lemma useMainMenuItems_catalog:
  "catalog u = Inr m \<Longrightarrow> useMainMenuItems u s = Inr (roleFilter s m)"
  by (simp add: useMainMenuItems_def)

lemma roleFilter_twice: "roleFilter s (roleFilter s m) = roleFilter s m"
  by (simp add: roleFilter_def)

text \<open>
  The hook returns for every user and every value of the role check, and a falsy role
  check gives the catalog as built.
\<close>

lemma useMainMenuItems_returns:
  "(\<exists>r. useMainMenuItems u s = Inr r)
   \<and> useMainMenuItems u Undefined = catalog u
   \<and> useMainMenuItems u Null = catalog u
   \<and> useMainMenuItems u (Bool False) = catalog u
   \<and> useMainMenuItems u (Str []) = catalog u"
proof -
  obtain c where c: "catalog u = Inr c" using catalog_total by blast
  have f: "roleFilter Undefined c = c" "roleFilter Null c = c"
    "roleFilter (Bool False) c = c" "roleFilter (Str []) c = c"
    by (simp_all add: roleFilter_def)
  from c f show ?thesis by (simp add: useMainMenuItems_def)
qed

lemma missing_name_omitted:
  "orderTagsUrl (Some \<lparr>email = Str e, firstName = Undefined, lastName = Null\<rparr>)
     = Inr (''https://www.shelf.nu/order-tags?email='' @ e)"
  by (simp add: orderTagsUrl_Inr)

lemmas eval_defs =
  useMainMenuItems_def catalog_def menuItemsBottom_init_def orderTagsUrl_Inr
  roleFilter_def includes_arr_def itemsToRemove_def menuItemsTop_init_def plain_def

section \<open>The claims\<close>

text \<open>
  C1. For a self-service user whose profile has email, first name and last name, the top
  list is exactly the entries \<open>assets\<close>, \<open>kits\<close>, \<open>calendar\<close>, \<open>bookings\<close>, in that order,
  and the bottom list is the asset-labels entry followed by the QR-scanner entry, without
  the settings entry.
\<close>

theorem self_service_full_profile:
  assumes "truthy s" and "f \<noteq> []" and "l \<noteq> []"
  shows "useMainMenuItems (Some \<lparr>email = Str e, firstName = Str f, lastName = Str l\<rparr>) s =
       Inr \<lparr>menuItemsTop =
              [plain ''asset'' ''assets'' ''Assets'', plain ''kit'' ''kits'' ''Kits'',
               plain ''calendar'' ''calendar'' ''Calendar'',
               plain ''bookings'' ''bookings'' ''Bookings''],
            menuItemsBottom =
              [\<lparr>icon = Icon ''asset-label'',
                 to = ''https://www.shelf.nu/order-tags?email='' @ e
                      @ ''&firstName='' @ f @ ''&lastName='' @ l,
                 title = ''Asset labels'', target = Some ''_blank'', isNew = Some True,
                 end_prop = None\<rparr>,
               \<lparr>icon = Icon ''scanQR'', to = ''scanner'', title = ''QR scanner'',
                 target = None, isNew = None, end_prop = Some True\<rparr>]\<rparr>"
  using assms by (simp add: eval_defs)

theorem self_service_full_profile_witness:
  "truthy (Bool True) \<and> ''Jo'' \<noteq> [] \<and> ''Doe'' \<noteq> []
   \<and> useMainMenuItems
        (Some \<lparr>email = Str ''a@b.com'', firstName = Str ''Jo'', lastName = Str ''Doe''\<rparr>)
        (Bool True) =
       Inr \<lparr>menuItemsTop =
              [plain ''asset'' ''assets'' ''Assets'', plain ''kit'' ''kits'' ''Kits'',
               plain ''calendar'' ''calendar'' ''Calendar'',
               plain ''bookings'' ''bookings'' ''Bookings''],
            menuItemsBottom =
              [\<lparr>icon = Icon ''asset-label'',
                 to = ''https://www.shelf.nu/order-tags?email=a@b.com&firstName=Jo&lastName=Doe'',
                 title = ''Asset labels'', target = Some ''_blank'', isNew = Some True,
                 end_prop = None\<rparr>,
               \<lparr>icon = Icon ''scanQR'', to = ''scanner'', title = ''QR scanner'',
                 target = None, isNew = None, end_prop = Some True\<rparr>]\<rparr>"
  using self_service_full_profile [of "Bool True" "''Jo''" "''Doe''" "''a@b.com''"] by simp

text \<open>
  C2. With no user object the hook still returns, and the asset-labels entry has no
  first-name or last-name parameter; the value of its email parameter is the text
  \<open>undefined\<close>, not the empty text.
\<close>

theorem absent_user_email_undefined:
  "useMainMenuItems None Undefined =
       Inr \<lparr>menuItemsTop = menuItemsTop_init,
            menuItemsBottom =
              [\<lparr>icon = Icon ''asset-label'',
                 to = ''https://www.shelf.nu/order-tags?email=undefined'',
                 title = ''Asset labels'', target = Some ''_blank'', isNew = Some True,
                 end_prop = None\<rparr>,
               \<lparr>icon = Icon ''scanQR'', to = ''scanner'', title = ''QR scanner'',
                 target = None, isNew = None, end_prop = Some True\<rparr>,
               \<lparr>icon = Icon ''settings'', to = ''settings'', title = ''Workspace settings'',
                 target = None, isNew = None, end_prop = Some True\<rparr>]\<rparr>
   \<and> orderTagsUrl None \<noteq> Inr ''https://www.shelf.nu/order-tags?email=''"
  by (simp add: useMainMenuItems_def catalog_def menuItemsBottom_init_def orderTagsUrl_Inr
      roleFilter_def)

text \<open>
  C3. When the role check is falsy, the hook returns the two lists of the catalog as they
  were built: same entries, same order.
\<close>

theorem not_self_service_unfiltered:
  "\<not> truthy s \<Longrightarrow> \<exists>m. catalog u = Inr m \<and> useMainMenuItems u s = Inr m"
  using catalog_total [of u] by (auto simp: useMainMenuItems_def roleFilter_def)

theorem not_self_service_unfiltered_witness:
  "\<not> truthy (Bool False)
   \<and> (\<exists>m. catalog (Some \<lparr>email = Str ''a@b.com'', firstName = Null, lastName = Null\<rparr>) = Inr m
        \<and> useMainMenuItems (Some \<lparr>email = Str ''a@b.com'', firstName = Null, lastName = Null\<rparr>)
             (Bool False) = Inr m)"
  using not_self_service_unfiltered
    [of "Bool False" "Some \<lparr>email = Str ''a@b.com'', firstName = Null, lastName = Null\<rparr>"]
  by simp

text \<open>
  C4. When the role check is truthy, no entry of either returned list has a \<open>to\<close> among
  \<open>dashboard\<close>, \<open>categories\<close>, \<open>tags\<close>, \<open>locations\<close>, \<open>settings\<close>.
\<close>

theorem self_service_excluded_keys:
  "truthy s \<Longrightarrow>
   \<exists>r. useMainMenuItems u s = Inr r
     \<and> (\<forall>e \<in> set (menuItemsTop r) \<union> set (menuItemsBottom r).
           to e \<notin> {''dashboard'', ''categories'', ''tags'', ''locations'', ''settings''})"
proof -
  assume t: "truthy s"
  obtain c where "catalog u = Inr c" using catalog_total by blast
  then have "useMainMenuItems u s = Inr (roleFilter s c)"
    by (rule useMainMenuItems_catalog)
  moreover have "\<forall>e \<in> set (menuItemsTop (roleFilter s c)) \<union> set (menuItemsBottom (roleFilter s c)).
           to e \<notin> {''dashboard'', ''categories'', ''tags'', ''locations'', ''settings''}"
    using t by (auto simp: roleFilter_def includes_arr_def itemsToRemove_def)
  ultimately show ?thesis by blast
qed

theorem self_service_excluded_keys_witness:
  "truthy (Bool True)
   \<and> useMainMenuItems None (Bool True) =
       Inr \<lparr>menuItemsTop =
              [plain ''asset'' ''assets'' ''Assets'', plain ''kit'' ''kits'' ''Kits'',
               plain ''calendar'' ''calendar'' ''Calendar'',
               plain ''bookings'' ''bookings'' ''Bookings''],
            menuItemsBottom =
              [\<lparr>icon = Icon ''asset-label'',
                 to = ''https://www.shelf.nu/order-tags?email=undefined'',
                 title = ''Asset labels'', target = Some ''_blank'', isNew = Some True,
                 end_prop = None\<rparr>,
               \<lparr>icon = Icon ''scanQR'', to = ''scanner'', title = ''QR scanner'',
                 target = None, isNew = None, end_prop = Some True\<rparr>]\<rparr>
   \<and> to (plain ''asset'' ''assets'' ''Assets'')
        \<notin> {''dashboard'', ''categories'', ''tags'', ''locations'', ''settings''}"
  using self_service_excluded_keys [of "Bool True" None] by (simp add: eval_defs)


text \<open>
  C6. Two entries that are both in a returned list, the first before the second in the
  list of the catalog, are in that order in the returned list; this holds for the top
  list and for the bottom list, whatever the role check gives.
\<close>

theorem filter_order_preserved:
  assumes "catalog u = Inr c" and "useMainMenuItems u s = Inr r"
  shows "(a \<in> set (menuItemsTop r) \<and> b \<in> set (menuItemsTop r)
            \<and> precedes a b (menuItemsTop c)
            \<longrightarrow> precedes a b (menuItemsTop r))
       \<and> (a \<in> set (menuItemsBottom r) \<and> b \<in> set (menuItemsBottom r)
            \<and> precedes a b (menuItemsBottom c)
            \<longrightarrow> precedes a b (menuItemsBottom r))"
proof -
  from assms have r: "r = roleFilter s c" by (simp add: useMainMenuItems_def)
  show ?thesis
  proof (cases "truthy s")
    case False
    with r show ?thesis by (simp add: roleFilter_def)
  next
    case True
    with r show ?thesis by (auto simp: roleFilter_def intro: precedes_filter)
  qed
qed

theorem filter_order_preserved_witness:
  "catalog None =
     Inr \<lparr>menuItemsTop = menuItemsTop_init,
          menuItemsBottom =
            [\<lparr>icon = Icon ''asset-label'',
               to = ''https://www.shelf.nu/order-tags?email=undefined'',
               title = ''Asset labels'', target = Some ''_blank'', isNew = Some True,
               end_prop = None\<rparr>,
             \<lparr>icon = Icon ''scanQR'', to = ''scanner'', title = ''QR scanner'',
               target = None, isNew = None, end_prop = Some True\<rparr>,
             \<lparr>icon = Icon ''settings'', to = ''settings'', title = ''Workspace settings'',
               target = None, isNew = None, end_prop = Some True\<rparr>]\<rparr>
   \<and> useMainMenuItems None (Bool True) =
       Inr \<lparr>menuItemsTop =
              [plain ''asset'' ''assets'' ''Assets'', plain ''kit'' ''kits'' ''Kits'',
               plain ''calendar'' ''calendar'' ''Calendar'',
               plain ''bookings'' ''bookings'' ''Bookings''],
            menuItemsBottom =
              [\<lparr>icon = Icon ''asset-label'',
                 to = ''https://www.shelf.nu/order-tags?email=undefined'',
                 title = ''Asset labels'', target = Some ''_blank'', isNew = Some True,
                 end_prop = None\<rparr>,
               \<lparr>icon = Icon ''scanQR'', to = ''scanner'', title = ''QR scanner'',
                 target = None, isNew = None, end_prop = Some True\<rparr>]\<rparr>
   \<and> precedes (plain ''kit'' ''kits'' ''Kits'') (plain ''calendar'' ''calendar'' ''Calendar'')
        menuItemsTop_init
   \<and> precedes (plain ''kit'' ''kits'' ''Kits'') (plain ''calendar'' ''calendar'' ''Calendar'')
        [plain ''asset'' ''assets'' ''Assets'', plain ''kit'' ''kits'' ''Kits'',
         plain ''calendar'' ''calendar'' ''Calendar'',
         plain ''bookings'' ''bookings'' ''Bookings'']"
proof -
  have c: "catalog None =
     Inr \<lparr>menuItemsTop = menuItemsTop_init,
          menuItemsBottom =
            [\<lparr>icon = Icon ''asset-label'',
               to = ''https://www.shelf.nu/order-tags?email=undefined'',
               title = ''Asset labels'', target = Some ''_blank'', isNew = Some True,
               end_prop = None\<rparr>,
             \<lparr>icon = Icon ''scanQR'', to = ''scanner'', title = ''QR scanner'',
               target = None, isNew = None, end_prop = Some True\<rparr>,
             \<lparr>icon = Icon ''settings'', to = ''settings'', title = ''Workspace settings'',
               target = None, isNew = None, end_prop = Some True\<rparr>]\<rparr>"
    by (simp add: catalog_def menuItemsBottom_init_def orderTagsUrl_Inr)
  have r: "useMainMenuItems None (Bool True) =
       Inr \<lparr>menuItemsTop =
              [plain ''asset'' ''assets'' ''Assets'', plain ''kit'' ''kits'' ''Kits'',
               plain ''calendar'' ''calendar'' ''Calendar'',
               plain ''bookings'' ''bookings'' ''Bookings''],
            menuItemsBottom =
              [\<lparr>icon = Icon ''asset-label'',
                 to = ''https://www.shelf.nu/order-tags?email=undefined'',
                 title = ''Asset labels'', target = Some ''_blank'', isNew = Some True,
                 end_prop = None\<rparr>,
               \<lparr>icon = Icon ''scanQR'', to = ''scanner'', title = ''QR scanner'',
                 target = None, isNew = None, end_prop = Some True\<rparr>]\<rparr>"
    by (simp add: eval_defs)
  have p: "precedes (plain ''kit'' ''kits'' ''Kits'')
             (plain ''calendar'' ''calendar'' ''Calendar'') menuItemsTop_init"
    by (simp add: menuItemsTop_init_def plain_def)
  from filter_order_preserved [OF c r, of "plain ''kit'' ''kits'' ''Kits''"
      "plain ''calendar'' ''calendar'' ''Calendar''"] p
  have "precedes (plain ''kit'' ''kits'' ''Kits'') (plain ''calendar'' ''calendar'' ''Calendar'')
        [plain ''asset'' ''assets'' ''Assets'', plain ''kit'' ''kits'' ''Kits'',
         plain ''calendar'' ''calendar'' ''Calendar'',
         plain ''bookings'' ''bookings'' ''Bookings'']"
    by simp
  with c r p show ?thesis by (intro conjI)
qed

text \<open>
  C7. For a self-service user the filter block keeps, in each list on its own, exactly
  the entries whose \<open>to\<close> is not equal to one of the five excluded keys: the result for
  one list does not depend on the other list. A key that no entry of a list has can be
  left out of the exclusion set for that list with the same result, so for the hook the
  top list is the catalog's top list filtered without \<open>settings\<close> and the bottom list is
  the catalog's bottom list filtered by \<open>settings\<close> alone, and the hook returns. Keys
  that only share a prefix or a part with an excluded key, or differ in case, are kept
  by the filter block.
\<close>

theorem exclusion_exact_and_dangling:
  assumes "truthy s"
    and "k \<notin> set (map to (menuItemsTop m))"
    and "k' \<notin> set (map to (menuItemsBottom m))"
  shows "menuItemsTop (roleFilter s m)
           = filter (\<lambda>e. to e \<notin> {''dashboard'', ''categories'', ''tags'', ''locations'',
                                ''settings''}) (menuItemsTop m)
     \<and> menuItemsBottom (roleFilter s m)
           = filter (\<lambda>e. to e \<notin> {''dashboard'', ''categories'', ''tags'', ''locations'',
                                ''settings''}) (menuItemsBottom m)
     \<and> menuItemsTop (roleFilter s (m\<lparr>menuItemsBottom := other\<rparr>)) = menuItemsTop (roleFilter s m)
     \<and> menuItemsBottom (roleFilter s (m\<lparr>menuItemsTop := other\<rparr>))
           = menuItemsBottom (roleFilter s m)
     \<and> menuItemsTop (roleFilter s m)
           = filter (\<lambda>e. to e \<notin> {''dashboard'', ''categories'', ''tags'', ''locations'',
                                ''settings''} - {k}) (menuItemsTop m)
     \<and> menuItemsBottom (roleFilter s m)
           = filter (\<lambda>e. to e \<notin> {''dashboard'', ''categories'', ''tags'', ''locations'',
                                ''settings''} - {k'}) (menuItemsBottom m)
     \<and> (\<exists>c r. catalog u = Inr c \<and> useMainMenuItems u s = Inr r
           \<and> menuItemsTop r
               = filter (\<lambda>e. to e \<notin> {''dashboard'', ''categories'', ''tags'', ''locations''})
                   (menuItemsTop c)
           \<and> menuItemsBottom r = filter (\<lambda>e. to e \<noteq> ''settings'') (menuItemsBottom c))
     \<and> roleFilter s
          \<lparr>menuItemsTop = [plain i ''tag'' n, plain i ''tagsets'' n, plain i ''Tags'' n],
           menuItemsBottom = [plain i ''order-tags'' n, plain i ''setting'' n,
                              plain i ''settings/general'' n]\<rparr>
         = \<lparr>menuItemsTop = [plain i ''tag'' n, plain i ''tagsets'' n, plain i ''Tags'' n],
            menuItemsBottom = [plain i ''order-tags'' n, plain i ''setting'' n,
                               plain i ''settings/general'' n]\<rparr>"
proof -
  let ?K = "{''dashboard'', ''categories'', ''tags'', ''locations'', ''settings''}"
  have keys: "\<And>e. includes_arr itemsToRemove (to e) = (to e \<in> ?K)"
    by (simp add: includes_arr_def itemsToRemove_def)
  have top: "menuItemsTop (roleFilter s m) = filter (\<lambda>e. to e \<notin> ?K) (menuItemsTop m)"
    using assms(1) by (simp add: roleFilter_def keys)
  have bottom: "menuItemsBottom (roleFilter s m) = filter (\<lambda>e. to e \<notin> ?K) (menuItemsBottom m)"
    using assms(1) by (simp add: roleFilter_def keys)
  have ind_top: "menuItemsTop (roleFilter s (m\<lparr>menuItemsBottom := other\<rparr>))
      = menuItemsTop (roleFilter s m)"
    by (simp add: roleFilter_def)
  have ind_bottom: "menuItemsBottom (roleFilter s (m\<lparr>menuItemsTop := other\<rparr>))
      = menuItemsBottom (roleFilter s m)"
    by (simp add: roleFilter_def)
  have "filter (\<lambda>e. to e \<notin> ?K) (menuItemsTop m)
      = filter (\<lambda>e. to e \<notin> ?K - {k}) (menuItemsTop m)"
    using assms(2) by (intro filter_cong refl) auto
  with top have dang_top: "menuItemsTop (roleFilter s m)
      = filter (\<lambda>e. to e \<notin> ?K - {k}) (menuItemsTop m)"
    by simp
  have "filter (\<lambda>e. to e \<notin> ?K) (menuItemsBottom m)
      = filter (\<lambda>e. to e \<notin> ?K - {k'}) (menuItemsBottom m)"
    using assms(3) by (intro filter_cong refl) auto
  with bottom have dang_bottom: "menuItemsBottom (roleFilter s m)
      = filter (\<lambda>e. to e \<notin> ?K - {k'}) (menuItemsBottom m)"
    by simp
  obtain c where c: "catalog u = Inr c" using catalog_total by blast
  then have r: "useMainMenuItems u s = Inr (roleFilter s c)"
    by (rule useMainMenuItems_catalog)
  have hook_top: "menuItemsTop (roleFilter s c)
      = filter (\<lambda>e. to e \<notin> {''dashboard'', ''categories'', ''tags'', ''locations''})
          (menuItemsTop c)"
    using catalog_top [OF c] assms(1)
    by (simp add: roleFilter_def keys menuItemsTop_init_def plain_def)
  obtain url where url: "orderTagsUrl u = Inr url" and bot: "menuItemsBottom c =
     [\<lparr>icon = Icon ''asset-label'', to = url, title = ''Asset labels'',
        target = Some ''_blank'', isNew = Some True, end_prop = None\<rparr>,
      \<lparr>icon = Icon ''scanQR'', to = ''scanner'', title = ''QR scanner'',
        target = None, isNew = None, end_prop = Some True\<rparr>,
      \<lparr>icon = Icon ''settings'', to = ''settings'', title = ''Workspace settings'',
        target = None, isNew = None, end_prop = Some True\<rparr>]"
    using catalog_bottom [OF c] by blast
  from orderTagsUrl_https [OF url] obtain rest where "url = ''https://'' @ rest" by blast
  with bot assms(1) have hook_bottom: "menuItemsBottom (roleFilter s c)
       = filter (\<lambda>e. to e \<noteq> ''settings'') (menuItemsBottom c)"
    by (simp add: roleFilter_def keys)
  from c r hook_top hook_bottom
  have hook: "\<exists>c r. catalog u = Inr c \<and> useMainMenuItems u s = Inr r
           \<and> menuItemsTop r
               = filter (\<lambda>e. to e \<notin> {''dashboard'', ''categories'', ''tags'', ''locations''})
                   (menuItemsTop c)
           \<and> menuItemsBottom r = filter (\<lambda>e. to e \<noteq> ''settings'') (menuItemsBottom c)"
    by blast
  have near: "roleFilter s
          \<lparr>menuItemsTop = [plain i ''tag'' n, plain i ''tagsets'' n, plain i ''Tags'' n],
           menuItemsBottom = [plain i ''order-tags'' n, plain i ''setting'' n,
                              plain i ''settings/general'' n]\<rparr>
         = \<lparr>menuItemsTop = [plain i ''tag'' n, plain i ''tagsets'' n, plain i ''Tags'' n],
            menuItemsBottom = [plain i ''order-tags'' n, plain i ''setting'' n,
                               plain i ''settings/general'' n]\<rparr>"
    by (simp add: roleFilter_def keys plain_def)
  from top bottom ind_top ind_bottom dang_top dang_bottom hook near
  show ?thesis by (intro conjI)
qed

theorem exclusion_exact_and_dangling_witness:
  "truthy (Bool True)
   \<and> ''settings'' \<notin> set (map to menuItemsTop_init)
   \<and> ''dashboard'' \<notin> set (map to [plain ''scanQR'' ''scanner'' ''QR scanner'',
                                     plain ''settings'' ''settings'' ''Workspace settings''])
   \<and> menuItemsTop (roleFilter (Bool True)
        \<lparr>menuItemsTop = menuItemsTop_init,
         menuItemsBottom = [plain ''scanQR'' ''scanner'' ''QR scanner'',
                            plain ''settings'' ''settings'' ''Workspace settings'']\<rparr>)
       = filter (\<lambda>e. to e \<notin> {''dashboard'', ''categories'', ''tags'', ''locations'',
                            ''settings''} - {''settings''}) menuItemsTop_init
   \<and> menuItemsTop (roleFilter (Bool True)
        \<lparr>menuItemsTop = menuItemsTop_init,
         menuItemsBottom = [plain ''scanQR'' ''scanner'' ''QR scanner'',
                            plain ''settings'' ''settings'' ''Workspace settings'']\<rparr>)
       = [plain ''asset'' ''assets'' ''Assets'', plain ''kit'' ''kits'' ''Kits'',
          plain ''calendar'' ''calendar'' ''Calendar'',
          plain ''bookings'' ''bookings'' ''Bookings'']
   \<and> menuItemsBottom (roleFilter (Bool True)
        \<lparr>menuItemsTop = menuItemsTop_init,
         menuItemsBottom = [plain ''scanQR'' ''scanner'' ''QR scanner'',
                            plain ''settings'' ''settings'' ''Workspace settings'']\<rparr>)
       = [plain ''scanQR'' ''scanner'' ''QR scanner'']"
proof -
  let ?m = "\<lparr>menuItemsTop = menuItemsTop_init,
         menuItemsBottom = [plain ''scanQR'' ''scanner'' ''QR scanner'',
                            plain ''settings'' ''settings'' ''Workspace settings'']\<rparr>"
  have t: "truthy (Bool True)" by simp
  have h1: "''settings'' \<notin> set (map to (menuItemsTop ?m))"
    by (simp add: menuItemsTop_init_def plain_def)
  have h2: "''dashboard'' \<notin> set (map to (menuItemsBottom ?m))"
    by (simp add: plain_def)
  note inst = exclusion_exact_and_dangling [OF t h1 h2, of "[]" None "[]" "[]"]
  from inst have "menuItemsTop (roleFilter (Bool True) ?m)
       = filter (\<lambda>e. to e \<notin> {''dashboard'', ''categories'', ''tags'', ''locations'',
                            ''settings''} - {''settings''}) (menuItemsTop ?m)"
    by blast
  then have a: "menuItemsTop (roleFilter (Bool True) ?m)
       = filter (\<lambda>e. to e \<notin> {''dashboard'', ''categories'', ''tags'', ''locations'',
                            ''settings''} - {''settings''}) menuItemsTop_init"
    by simp
  from inst have "menuItemsTop (roleFilter (Bool True) ?m)
       = filter (\<lambda>e. to e \<notin> {''dashboard'', ''categories'', ''tags'', ''locations'',
                            ''settings''}) (menuItemsTop ?m)"
    by blast
  then have b: "menuItemsTop (roleFilter (Bool True) ?m)
       = [plain ''asset'' ''assets'' ''Assets'', plain ''kit'' ''kits'' ''Kits'',
          plain ''calendar'' ''calendar'' ''Calendar'',
          plain ''bookings'' ''bookings'' ''Bookings'']"
    by (simp add: menuItemsTop_init_def plain_def)
  from inst have "menuItemsBottom (roleFilter (Bool True) ?m)
       = filter (\<lambda>e. to e \<notin> {''dashboard'', ''categories'', ''tags'', ''locations'',
                            ''settings''}) (menuItemsBottom ?m)"
    by blast
  then have c: "menuItemsBottom (roleFilter (Bool True) ?m)
       = [plain ''scanQR'' ''scanner'' ''QR scanner'']"
    by (simp add: plain_def)
  from t h1 h2 a b c show ?thesis by simp
qed

text \<open>
  C8. Applying the role filter to lists it has already filtered changes nothing, for
  every value of the role check; in particular it changes nothing on the lists the hook
  returns.
\<close>

theorem roleFilter_idempotent:
  "roleFilter s (roleFilter s m) = roleFilter s m
   \<and> (\<exists>r. useMainMenuItems u s = Inr r \<and> roleFilter s r = r)"
proof -
  obtain c where "catalog u = Inr c" using catalog_total by blast
  then have "useMainMenuItems u s = Inr (roleFilter s c)"
    by (rule useMainMenuItems_catalog)
  then show ?thesis using roleFilter_twice by blast
qed

text \<open>
  C9. The hook returns a result for every user and every value of the role check, and a
  falsy role check gives the catalog unfiltered; a missing first or last name adds
  nothing. A missing email is not left out as absent data: for a user with first name
  \<open>Jo\<close> and no email the hook returns, with the text \<open>undefined\<close> as the value of the
  email parameter, and a \<open>null\<close> email gives the text \<open>null\<close>.
\<close>

theorem missing_email_rendered_as_text:
  "useMainMenuItems (Some \<lparr>email = Undefined, firstName = Str ''Jo'', lastName = Undefined\<rparr>)
       Undefined =
       Inr \<lparr>menuItemsTop = menuItemsTop_init,
            menuItemsBottom =
              [\<lparr>icon = Icon ''asset-label'',
                 to = ''https://www.shelf.nu/order-tags?email=undefined&firstName=Jo'',
                 title = ''Asset labels'', target = Some ''_blank'', isNew = Some True,
                 end_prop = None\<rparr>,
               \<lparr>icon = Icon ''scanQR'', to = ''scanner'', title = ''QR scanner'',
                 target = None, isNew = None, end_prop = Some True\<rparr>,
               \<lparr>icon = Icon ''settings'', to = ''settings'', title = ''Workspace settings'',
                 target = None, isNew = None, end_prop = Some True\<rparr>]\<rparr>
   \<and> orderTagsUrl (Some \<lparr>email = Undefined, firstName = Str ''Jo'', lastName = Undefined\<rparr>)
       \<noteq> Inr ''https://www.shelf.nu/order-tags?email=&firstName=Jo''
   \<and> orderTagsUrl (Some \<lparr>email = Null, firstName = Undefined, lastName = Undefined\<rparr>)
       = Inr ''https://www.shelf.nu/order-tags?email=null''"
  by (simp add: useMainMenuItems_def catalog_def menuItemsBottom_init_def orderTagsUrl_Inr
      roleFilter_def)

text \<open>
  C10. With a user whose email is a string, an empty first name gives the same URL as
  an absent first name, and an empty last name the same URL as an absent last name:
  neither adds a parameter.
\<close>

theorem empty_name_no_param:
  "orderTagsUrl (Some \<lparr>email = Str e, firstName = Str [], lastName = l\<rparr>)
     = orderTagsUrl (Some \<lparr>email = Str e, firstName = Undefined, lastName = l\<rparr>)
   \<and> orderTagsUrl (Some \<lparr>email = Str e, firstName = f, lastName = Str []\<rparr>)
     = orderTagsUrl (Some \<lparr>email = Str e, firstName = f, lastName = Undefined\<rparr>)
   \<and> orderTagsUrl (Some \<lparr>email = Str e, firstName = Str [], lastName = Str []\<rparr>)
     = Inr (''https://www.shelf.nu/order-tags?email='' @ e)
   \<and> orderTagsUrl (Some \<lparr>email = Str ''a@b.com'', firstName = Str [], lastName = Str ''Doe''\<rparr>)
     = Inr ''https://www.shelf.nu/order-tags?email=a@b.com&lastName=Doe''
   \<and> orderTagsUrl (Some \<lparr>email = Str ''a@b.com'', firstName = Str ''Jo'', lastName = Str []\<rparr>)
     = Inr ''https://www.shelf.nu/order-tags?email=a@b.com&firstName=Jo''"
  by (simp add: orderTagsUrl_Inr)

end
